theory Spec2Isabelle
  imports Main "HOL-Library.Multiset"
begin

section \<open>The portlets of lfc-portlets\<close>

text \<open>
  A shallow embedding of \<^verbatim>\<open>lfc_portlets/models.py\<close>: the four portlet classes
  (navigation, content, random, text) and their \<^verbatim>\<open>render\<close> methods. The web
  framework, the content catalog, the tagging library, the permission machinery and the
  template engine are collaborators of the portlets; what the portlets ask of them is
  written out below as data or as parameters.
\<close>

subsection \<open>Python values, requests, contexts and errors\<close>

text \<open>A request carries the requesting principal (\<^verbatim>\<open>request.user\<close>).\<close>

record request =
  user :: string

text \<open>
  The values a rendering context can hold under a key. \<^verbatim>\<open>context.get(key)\<close> gives
  \<^verbatim>\<open>None\<close> for a key that is not there.
\<close>

datatype pyval = PyNone | PyStr string | PyRequest request

type_synonym py_context = "string \<rightharpoonup> pyval"

definition context_get :: "py_context \<Rightarrow> string \<Rightarrow> pyval" where
  "context_get context key = (case context key of None \<Rightarrow> PyNone | Some v \<Rightarrow> v)"

datatype error = AttributeError

text \<open>
  The attribute access \<^verbatim>\<open>request.user\<close>: only a request object has the attribute,
  on \<^verbatim>\<open>None\<close> (and on any other value) Python raises \<^verbatim>\<open>AttributeError\<close>.
\<close>

fun request_user :: "pyval \<Rightarrow> error + string" where
  "request_user (PyRequest r) = Inr (user r)"
| "request_user PyNone = Inl AttributeError"
| "request_user (PyStr s) = Inl AttributeError"

subsection \<open>The content catalog and the collaborators\<close>

text \<open>
  A row of the catalog \<^verbatim>\<open>BaseContent.objects\<close>: its primary key, its language
  (\<^verbatim>\<open>"0"\<close> is the wildcard language) and the tags it carries.
\<close>

record base_content =
  content_id :: nat
  language :: string
  tag_set :: "string set"

text \<open>
  What the portlets consume from outside this repository, as parameters:
  the active language (\<^verbatim>\<open>translation.get_language()\<close>), the tag parser of the
  tagging library, the registration lookup (\<^verbatim>\<open>lfc.utils.registration.get_info\<close>,
  \<^verbatim>\<open>None\<close> when the type is not registered), the permission check
  \<^verbatim>\<open>obj.has_permission(user, codename)\<close> and the active-state check
  \<^verbatim>\<open>obj.is_active(user)\<close>.
\<close>

record collaborators =
  get_language :: string
  parse_tag_input :: "string \<Rightarrow> string list"
  get_info :: "base_content \<Rightarrow> string option"
  has_permission :: "base_content \<Rightarrow> string \<Rightarrow> string \<Rightarrow> bool"
  is_active :: "base_content \<Rightarrow> string \<Rightarrow> bool"

text \<open>
  \<^verbatim>\<open>BaseContent.objects.filter(language__in=("0", translation.get_language()))\<close>,
  in the catalog's order.
\<close>

definition language_filter :: "collaborators \<Rightarrow> base_content list \<Rightarrow> base_content list" where
  "language_filter env objects =
     filter (\<lambda>obj. language obj = ''0'' \<or> language obj = get_language env) objects"

text \<open>
  Modelled from the spec: \<^verbatim>\<open>ModelTaggedItemManager.with_all\<close> belongs to the tagging
  library and is not in this repository. The spec has it keep only the items possessing
  all listed tags (a conjunctive match), in the order of the queryset it is given.
\<close>

definition with_all :: "collaborators \<Rightarrow> string \<Rightarrow> base_content list \<Rightarrow> base_content list" where
  "with_all env tag_string queryset =
     filter (\<lambda>obj. set (parse_tag_input env tag_string) \<subseteq> tag_set obj) queryset"

text \<open>
  Modelled from the spec: \<^verbatim>\<open>BaseContent.get_content_object\<close> belongs to LFC and is
  not in this repository. The spec has it resolve an item to its concrete content
  representation: the same content item, seen at its concrete type, with the same
  language, tags and predicates.
\<close>

definition get_content_object :: "base_content \<Rightarrow> base_content" where
  "get_content_object obj = obj"

subsection \<open>Templates\<close>

text \<open>The values the portlets put into a template context.\<close>

datatype tvalue = TStr string | TNat nat | TObjs "base_content list"

text \<open>
  A template is rendered either with a plain dictionary or with a
  \<^verbatim>\<open>RequestContext(request, dict)\<close>.
\<close>

datatype template_context =
    Dict "string \<rightharpoonup> tvalue"
  | RequestContext pyval "string \<rightharpoonup> tvalue"

text \<open>
  Modelled from the spec: the template engine is a capability
  \<^verbatim>\<open>(template-name, variables) -> markup\<close> of the framework. The markup is
  represented by what the engine is given: the template's name and its context.
\<close>

datatype markup = Markup (template_name: string) (template_vars: template_context)

definition render_to_string :: "string \<Rightarrow> template_context \<Rightarrow> markup" where
  "render_to_string name ctx = Markup name ctx"

fun variables :: "template_context \<Rightarrow> (string \<rightharpoonup> tvalue)" where
  "variables (Dict d) = d"
| "variables (RequestContext r d) = d"

subsection \<open>The portlet records\<close>

text \<open>The fields every portlet inherits from \<^verbatim>\<open>portlets.models.Portlet\<close>.\<close>

record portlet =
  portlet_id :: nat
  title :: string

record navigation_portlet = portlet +
  start_level :: nat
  expand_level :: nat

record content_portlet = portlet +
  limit :: nat
  tags :: string

record random_portlet = portlet +
  limit :: nat
  tags :: string

record text_portlet = portlet +
  "text" :: string

subsection \<open>NavigationPortlet.render\<close>

definition NavigationPortlet_render :: "navigation_portlet \<Rightarrow> py_context \<Rightarrow> markup" where
  "NavigationPortlet_render self context =
     (let request = context_get context ''request'' in
      render_to_string ''lfc/portlets/navigation_portlet.html''
        (RequestContext request
          [''start_level'' \<mapsto> TNat (start_level self),
           ''expand_level'' \<mapsto> TNat (expand_level self),
           ''title'' \<mapsto> TStr (title self)]))"

subsection \<open>ContentPortlet.render\<close>

text \<open>
  The loop over the capped queryset. Python's \<^verbatim>\<open>and\<close> evaluates from the left and
  stops at the first false operand: \<^verbatim>\<open>request.user\<close> is read only for an item whose
  registration lookup succeeded.
\<close>

fun select_objs ::
  "collaborators \<Rightarrow> pyval \<Rightarrow> base_content list \<Rightarrow> base_content list \<Rightarrow> error + base_content list"
where
  "select_objs env request [] objs = Inr objs"
| "select_objs env request (item # temp) objs =
     (let obj = get_content_object item in
      case get_info env obj of
        None \<Rightarrow> select_objs env request temp objs
      | Some info \<Rightarrow>
          (case request_user request of
             Inl e \<Rightarrow> Inl e
           | Inr u \<Rightarrow>
               if has_permission env obj u ''view'' \<and> is_active env obj u
               then select_objs env request temp (objs @ [obj])
               else select_objs env request temp objs))"

text \<open>The queryset the loop runs over: the language filter, the tag filter, the slice.\<close>

definition ContentPortlet_temp ::
  "collaborators \<Rightarrow> base_content list \<Rightarrow> content_portlet \<Rightarrow> base_content list" where
  "ContentPortlet_temp env objects self =
     (let temp = language_filter env objects in
      if content_portlet.tags self \<noteq> []
      then take (content_portlet.limit self) (with_all env (content_portlet.tags self) temp)
      else take (content_portlet.limit self) temp)"

text \<open>The list \<^verbatim>\<open>objs\<close> that \<^verbatim>\<open>render\<close> builds: the portlet's selection.\<close>

definition ContentPortlet_objs ::
  "collaborators \<Rightarrow> base_content list \<Rightarrow> content_portlet \<Rightarrow> py_context \<Rightarrow> error + base_content list"
where
  "ContentPortlet_objs env objects self context =
     (let request = context_get context ''request'' in
      select_objs env request (ContentPortlet_temp env objects self) [])"

definition ContentPortlet_render ::
  "collaborators \<Rightarrow> base_content list \<Rightarrow> content_portlet \<Rightarrow> py_context \<Rightarrow> error + markup"
where
  "ContentPortlet_render env objects self context =
     (case ContentPortlet_objs env objects self context of
        Inl e \<Rightarrow> Inl e
      | Inr objs \<Rightarrow>
          Inr (render_to_string ''lfc/portlets/content_portlet.html''
                 (Dict [''title'' \<mapsto> TStr (title self), ''objs'' \<mapsto> TObjs objs])))"

subsection \<open>RandomPortlet.render\<close>

text \<open>
  \<^verbatim>\<open>random.shuffle\<close> walks \<^verbatim>\<open>i\<close> from the last index down to 1 and exchanges
  \<^verbatim>\<open>x[i]\<close> with \<^verbatim>\<open>x[j]\<close>, \<^verbatim>\<open>j\<close> drawn from \<^verbatim>\<open>0..i\<close>. The process-wide random
  source is made a parameter: \<open>rnd i\<close> is the draw of the step at index \<open>i\<close>, brought
  into range by \<open>mod\<close>.
\<close>

fun shuffle_from :: "(nat \<Rightarrow> nat) \<Rightarrow> nat \<Rightarrow> 'a list \<Rightarrow> 'a list" where
  "shuffle_from rnd 0 x = x"
| "shuffle_from rnd (Suc i) x =
     (let j = rnd (Suc i) mod (Suc i + 1) in
      shuffle_from rnd i (x[Suc i := x ! j, j := x ! Suc i]))"

definition shuffle :: "(nat \<Rightarrow> nat) \<Rightarrow> 'a list \<Rightarrow> 'a list" where
  "shuffle rnd x = shuffle_from rnd (length x - 1) x"

text \<open>The list that \<^verbatim>\<open>render\<close> shuffles: the language filter and, with tags, the tag
  filter and its slice.\<close>

definition RandomPortlet_filtered ::
  "collaborators \<Rightarrow> base_content list \<Rightarrow> random_portlet \<Rightarrow> base_content list" where
  "RandomPortlet_filtered env objects self =
     (let items = language_filter env objects in
      if random_portlet.tags self \<noteq> []
      then take (random_portlet.limit self) (with_all env (random_portlet.tags self) items)
      else items)"

text \<open>The list \<^verbatim>\<open>items[:self.limit]\<close> handed to the template: the portlet's selection.\<close>

definition RandomPortlet_items ::
  "(nat \<Rightarrow> nat) \<Rightarrow> collaborators \<Rightarrow> base_content list \<Rightarrow> random_portlet \<Rightarrow> base_content list"
where
  "RandomPortlet_items rnd env objects self =
     (let items = RandomPortlet_filtered env objects self;
          items = shuffle rnd items
      in take (random_portlet.limit self) items)"

definition RandomPortlet_render ::
  "(nat \<Rightarrow> nat) \<Rightarrow> collaborators \<Rightarrow> base_content list \<Rightarrow> random_portlet \<Rightarrow> py_context \<Rightarrow> markup"
where
  "RandomPortlet_render rnd env objects self context =
     render_to_string ''lfc/portlets/random_portlet.html''
       (Dict [''title'' \<mapsto> TStr (title self),
              ''items'' \<mapsto> TObjs (RandomPortlet_items rnd env objects self)])"

subsection \<open>TextPortlet.render\<close>

definition TextPortlet_render :: "text_portlet \<Rightarrow> py_context \<Rightarrow> markup" where
  "TextPortlet_render self context =
     render_to_string ''lfc/portlets/text_portlet.html''
       (Dict [''title'' \<mapsto> TStr (title self), ''text'' \<mapsto> TStr (text self)])"

subsection \<open>Rendering any portlet\<close>

text \<open>
  The operations of the portlets are the four \<^verbatim>\<open>render\<close> methods; a caller holds a
  portlet of one of the four classes and calls \<^verbatim>\<open>portlet.render(context)\<close>, which
  Python dispatches on the class. The call either returns the markup or surfaces the
  error raised inside the method. Only \<^verbatim>\<open>ContentPortlet.render\<close> has a step that can
  raise (\<^verbatim>\<open>request.user\<close>); the other three methods read fields of the portlet,
  take \<^verbatim>\<open>context.get("request")\<close>, filter, shuffle and slice lists, and hand the
  result to the template.
\<close>

datatype portlet_instance =
    NavigationPortlet navigation_portlet
  | ContentPortlet content_portlet
  | RandomPortlet random_portlet
  | TextPortlet text_portlet

fun render ::
  "(nat \<Rightarrow> nat) \<Rightarrow> collaborators \<Rightarrow> base_content list \<Rightarrow> portlet_instance \<Rightarrow> py_context
     \<Rightarrow> error + markup"
where
  "render rnd env objects (NavigationPortlet self) context =
     Inr (NavigationPortlet_render self context)"
| "render rnd env objects (ContentPortlet self) context =
     ContentPortlet_render env objects self context"
| "render rnd env objects (RandomPortlet self) context =
     Inr (RandomPortlet_render rnd env objects self context)"
| "render rnd env objects (TextPortlet self) context =
     Inr (TextPortlet_render self context)"

subsection \<open>The filtered catalog and the qualifying items\<close>

text \<open>
  The language- and tag-filtered catalog, with no cap: the language filter, and the tag
  filter when the portlet's tag string is not empty.
\<close>

definition filtered_catalog :: "collaborators \<Rightarrow> string \<Rightarrow> base_content list \<Rightarrow> base_content list" where
  "filtered_catalog env tag_string objects =
     (if tag_string \<noteq> [] then with_all env tag_string (language_filter env objects)
      else language_filter env objects)"

text \<open>
  An item qualifies for a principal when its registration lookup succeeds, the principal
  may view it and it is active for the principal.
\<close>

definition qualifies :: "collaborators \<Rightarrow> string \<Rightarrow> base_content \<Rightarrow> bool" where
  "qualifies env u obj =
     (get_info env obj \<noteq> None \<and> has_permission env obj u ''view'' \<and> is_active env obj u)"

subsection \<open>Concrete collaborators and items for the scenarios\<close>

text \<open>
  Modelled from the spec: the tag parser belongs to the tagging library and is not in this
  repository. The spec has the tag filter string hold comma-separated tags; the scenarios
  use a parser that cuts the string at its commas.
\<close>

fun split_commas :: "string \<Rightarrow> string list" where
  "split_commas [] = [[]]"
| "split_commas (c # cs) =
     (if c = CHR '','' then [] # split_commas cs
      else (case split_commas cs of
              [] \<Rightarrow> [[c]]
            | w # ws \<Rightarrow> (c # w) # ws))"

text \<open>
  The scenarios' collaborators: the active language is English, an item is registered,
  permitted and active when its key is in the set given for that.
\<close>

definition scenario_env :: "nat set \<Rightarrow> nat set \<Rightarrow> nat set \<Rightarrow> collaborators" where
  "scenario_env registered permitted active =
     \<lparr>get_language = ''en'',
      parse_tag_input = split_commas,
      get_info = (\<lambda>obj. if content_id obj \<in> registered then Some ''page'' else None),
      has_permission = (\<lambda>obj u codename. content_id obj \<in> permitted),
      is_active = (\<lambda>obj u. content_id obj \<in> active)\<rparr>"

definition scenario_item :: "nat \<Rightarrow> string set \<Rightarrow> base_content" where
  "scenario_item key ts = \<lparr>content_id = key, language = ''0'', tag_set = ts\<rparr>"

definition scenario_context :: py_context where
  "scenario_context = [''request'' \<mapsto> PyRequest \<lparr>user = ''alice''\<rparr>]"

section \<open>Properties\<close>

subsection \<open>The selection loop\<close>

lemma select_objs_ok:
  "request_user req = Inr u \<Longrightarrow>
   select_objs env req temp objs = Inr (objs @ filter (qualifies env u) temp)"
  by (induction temp arbitrary: objs)
     (auto simp: qualifies_def get_content_object_def Let_def split: option.splits)

lemma select_objs_unregistered:
  "\<forall>obj \<in> set temp. get_info env obj = None \<Longrightarrow> select_objs env req temp objs = Inr objs"
  by (induction temp arbitrary: objs) (auto simp: get_content_object_def Let_def)

lemma select_objs_fail:
  "request_user req = Inl e \<Longrightarrow> \<exists>obj \<in> set temp. get_info env obj \<noteq> None \<Longrightarrow>
   select_objs env req temp objs = Inl e"
  by (induction temp arbitrary: objs)
     (auto simp: get_content_object_def Let_def split: option.splits)

lemma select_objs_no_user:
  "request_user req = Inl e \<Longrightarrow> select_objs env req temp objs = Inr res \<Longrightarrow> res = objs"
  by (induction temp arbitrary: objs)
     (auto simp: get_content_object_def Let_def split: option.splits)

lemma select_objs_subset:
  "select_objs env req temp objs = Inr res \<Longrightarrow> set res \<subseteq> set objs \<union> set temp"
proof (cases "request_user req")
  case (Inl e)
  assume "select_objs env req temp objs = Inr res"
  with Inl have "res = objs" by (rule select_objs_no_user)
  then show ?thesis by simp
next
  case (Inr u)
  assume "select_objs env req temp objs = Inr res"
  with select_objs_ok [OF Inr, of env temp objs] show ?thesis by auto
qed

lemma request_user_present:
  "context ''request'' = Some (PyRequest r) \<Longrightarrow>
   request_user (context_get context ''request'') = Inr (user r)"
  by (simp add: context_get_def)

lemma request_user_absent:
  "context ''request'' = None \<Longrightarrow>
   request_user (context_get context ''request'') = Inl AttributeError"
  by (simp add: context_get_def)

lemma request_user_Inr:
  "request_user (context_get context ''request'') = Inr u \<Longrightarrow>
   \<exists>r. context ''request'' = Some (PyRequest r) \<and> u = user r"
  by (cases "context ''request''"; cases "context_get context ''request''")
     (auto simp: context_get_def)

lemma ContentPortlet_temp_cap:
  "ContentPortlet_temp env objects self =
     take (content_portlet.limit self)
       (filtered_catalog env (content_portlet.tags self) objects)"
  by (simp add: ContentPortlet_temp_def filtered_catalog_def Let_def)

lemma select_objs_error_iff:
  "select_objs env req temp objs = Inl e \<longleftrightarrow>
     request_user req = Inl e \<and> (\<exists>obj \<in> set temp. get_info env obj \<noteq> None)"
proof
  assume fails: "select_objs env req temp objs = Inl e"
  show "request_user req = Inl e \<and> (\<exists>obj \<in> set temp. get_info env obj \<noteq> None)"
  proof (cases "request_user req")
    case (Inr u)
    then have "select_objs env req temp objs = Inr (objs @ filter (qualifies env u) temp)"
      by (rule select_objs_ok)
    with fails show ?thesis by simp
  next
    case (Inl e')
    have reg: "\<exists>obj \<in> set temp. get_info env obj \<noteq> None"
    proof (rule ccontr)
      assume "\<not> (\<exists>obj \<in> set temp. get_info env obj \<noteq> None)"
      then have "\<forall>obj \<in> set temp. get_info env obj = None" by simp
      then have "select_objs env req temp objs = Inr objs"
        by (rule select_objs_unregistered)
      with fails show False by simp
    qed
    with Inl have "select_objs env req temp objs = Inl e'"
      by (rule select_objs_fail)
    with fails have "e' = e" by simp
    with Inl reg show ?thesis by simp
  qed
next
  assume "request_user req = Inl e \<and> (\<exists>obj \<in> set temp. get_info env obj \<noteq> None)"
  then show "select_objs env req temp objs = Inl e"
    by (simp add: select_objs_fail)
qed

lemma ContentPortlet_render_error_iff:
  "ContentPortlet_render env objects self context = Inl e \<longleftrightarrow>
     request_user (context_get context ''request'') = Inl e
     \<and> (\<exists>obj \<in> set (ContentPortlet_temp env objects self). get_info env obj \<noteq> None)"
proof -
  have "ContentPortlet_render env objects self context = Inl e \<longleftrightarrow>
      ContentPortlet_objs env objects self context = Inl e"
    by (simp add: ContentPortlet_render_def split: sum.splits)
  also have "\<dots> \<longleftrightarrow> request_user (context_get context ''request'') = Inl e
     \<and> (\<exists>obj \<in> set (ContentPortlet_temp env objects self). get_info env obj \<noteq> None)"
    unfolding ContentPortlet_objs_def Let_def by (rule select_objs_error_iff)
  finally show ?thesis .
qed

lemma ContentPortlet_render_with_request:
  assumes "context ''request'' = Some (PyRequest r)"
  shows "ContentPortlet_render env objects self context =
        Inr (render_to_string ''lfc/portlets/content_portlet.html''
              (Dict [''title'' \<mapsto> TStr (title self),
                     ''objs'' \<mapsto> TObjs
                        (filter (\<lambda>obj. get_info env obj \<noteq> None
                                   \<and> has_permission env obj (user r) ''view''
                                   \<and> is_active env obj (user r))
                           (ContentPortlet_temp env objects self))]))"
proof -
  from assms have "request_user (context_get context ''request'') = Inr (user r)"
    by (rule request_user_present)
  then have "ContentPortlet_objs env objects self context =
      Inr (filter (qualifies env (user r)) (ContentPortlet_temp env objects self))"
    by (simp add: ContentPortlet_objs_def select_objs_ok)
  moreover have "qualifies env (user r) = (\<lambda>obj. get_info env obj \<noteq> None
                                   \<and> has_permission env obj (user r) ''view''
                                   \<and> is_active env obj (user r))"
    by (rule ext) (simp add: qualifies_def)
  ultimately show ?thesis
    by (simp add: ContentPortlet_render_def)
qed

lemma ContentPortlet_render_unregistered:
  assumes "\<forall>obj \<in> set (ContentPortlet_temp env objects self). get_info env obj = None"
  shows "ContentPortlet_render env objects self context =
        Inr (render_to_string ''lfc/portlets/content_portlet.html''
              (Dict [''title'' \<mapsto> TStr (title self), ''objs'' \<mapsto> TObjs []]))"
proof -
  from assms have "ContentPortlet_objs env objects self context = Inr []"
    unfolding ContentPortlet_objs_def Let_def by (rule select_objs_unregistered)
  then show ?thesis
    by (simp add: ContentPortlet_render_def)
qed

subsection \<open>The shuffle\<close>

lemma mset_shuffle_from: "i < length x \<Longrightarrow> mset (shuffle_from rnd i x) = mset x"
proof (induction i arbitrary: x)
  case 0
  then show ?case by simp
next
  case (Suc i)
  let ?j = "rnd (Suc i) mod (Suc i + 1)"
  have j: "?j < length x"
  proof -
    have "?j < Suc i + 1" by (rule mod_less_divisor) simp
    with Suc.prems show ?thesis by linarith
  qed
  have "mset (x[Suc i := x ! ?j, ?j := x ! Suc i]) = mset x"
    using mset_swap [OF j Suc.prems] by simp
  moreover have "i < length (x[Suc i := x ! ?j, ?j := x ! Suc i])"
    using Suc.prems by simp
  ultimately show ?case using Suc.IH by (simp add: Let_def)
qed

lemma mset_shuffle: "mset (shuffle rnd x) = mset x"
  by (cases x) (simp_all add: shuffle_def mset_shuffle_from)

lemma length_shuffle: "length (shuffle rnd x) = length x"
  using mset_shuffle [of rnd x] by (metis size_mset)

lemma mset_take_subseteq: "mset (take n xs) \<subseteq># mset xs"
proof -
  have "mset xs = mset (take n xs) + mset (drop n xs)"
    by (metis append_take_drop_id mset_append)
  then show ?thesis by simp
qed

lemma RandomPortlet_filtered_subseteq:
  "mset (RandomPortlet_filtered env objects self) \<subseteq>#
     mset (filtered_catalog env (random_portlet.tags self) objects)"
  by (simp add: RandomPortlet_filtered_def filtered_catalog_def Let_def mset_take_subseteq)

lemma RandomPortlet_filtered_all:
  "length (filtered_catalog env (random_portlet.tags self) objects) \<le> random_portlet.limit self \<Longrightarrow>
   RandomPortlet_filtered env objects self =
     filtered_catalog env (random_portlet.tags self) objects"
  by (cases "random_portlet.tags self = []")
     (simp_all add: RandomPortlet_filtered_def filtered_catalog_def Let_def)

lemma filtered_catalog_language:
  "obj \<in> set (filtered_catalog env tag_string objects) \<Longrightarrow>
   language obj = ''0'' \<or> language obj = get_language env"
  by (auto simp: filtered_catalog_def with_all_def language_filter_def split: if_splits)

lemma filtered_catalog_tags:
  "tag_string \<noteq> [] \<Longrightarrow> obj \<in> set (filtered_catalog env tag_string objects) \<Longrightarrow>
   set (parse_tag_input env tag_string) \<subseteq> tag_set obj"
  by (simp add: filtered_catalog_def with_all_def)

subsection \<open>ContentPortlet: the cap comes before the permission filter\<close>

text \<open>
  C1. ContentPortlet's selection caps the language- and tag-filtered catalog at the limit
  before it applies the registration, permission and active-state filter: with a request
  in the context, the selection is the qualifying items among the first \<open>limit\<close> items of
  the filtered catalog, so it can hold fewer than \<open>limit\<close> items although a qualifying
  item lies beyond the cap. For the catalog of A (not permitted) and B (permitted) with
  limit 1 the selection is empty, and B qualifies.
\<close>

theorem ContentPortlet_cap_before_filter:
  "(context ''request'' = Some (PyRequest r) \<longrightarrow>
      ContentPortlet_objs env objects self context =
        Inr (filter (qualifies env (user r))
               (take (content_portlet.limit self)
                  (filtered_catalog env (content_portlet.tags self) objects))))
   \<and> ContentPortlet_objs (scenario_env {1, 2} {2} {1, 2})
        [scenario_item 1 {}, scenario_item 2 {}]
        \<lparr>portlet_id = 1, title = ''News'',
         content_portlet.limit = 1, content_portlet.tags = ''''\<rparr>
        scenario_context = Inr []
   \<and> qualifies (scenario_env {1, 2} {2} {1, 2}) ''alice'' (scenario_item 2 {})
   \<and> scenario_item 2 {} \<in> set (filtered_catalog (scenario_env {1, 2} {2} {1, 2}) ''''
        [scenario_item 1 {}, scenario_item 2 {}])"
proof (intro conjI impI)
  assume "context ''request'' = Some (PyRequest r)"
  then have "request_user (context_get context ''request'') = Inr (user r)"
    by (rule request_user_present)
  then show "ContentPortlet_objs env objects self context =
        Inr (filter (qualifies env (user r))
               (take (content_portlet.limit self)
                  (filtered_catalog env (content_portlet.tags self) objects)))"
    by (simp add: ContentPortlet_objs_def select_objs_ok ContentPortlet_temp_cap)
next
  show "ContentPortlet_objs (scenario_env {1, 2} {2} {1, 2})
        [scenario_item 1 {}, scenario_item 2 {}]
        \<lparr>portlet_id = 1, title = ''News'',
         content_portlet.limit = 1, content_portlet.tags = ''''\<rparr>
        scenario_context = Inr []"
    by (simp add: ContentPortlet_objs_def ContentPortlet_temp_def language_filter_def
        scenario_env_def scenario_item_def scenario_context_def context_get_def
        get_content_object_def)
next
  show "qualifies (scenario_env {1, 2} {2} {1, 2}) ''alice'' (scenario_item 2 {})"
    by (simp add: qualifies_def scenario_env_def scenario_item_def)
next
  show "scenario_item 2 {} \<in> set (filtered_catalog (scenario_env {1, 2} {2} {1, 2}) ''''
        [scenario_item 1 {}, scenario_item 2 {}])"
    by (simp add: filtered_catalog_def language_filter_def scenario_item_def)
qed

theorem ContentPortlet_cap_before_filter_witness:
  "scenario_context ''request'' = Some (PyRequest \<lparr>user = ''alice''\<rparr>)
   \<and> ContentPortlet_objs (scenario_env {1, 2, 3} {2, 3} {1, 2, 3})
        [scenario_item 1 {}, scenario_item 2 {}, scenario_item 3 {}]
        \<lparr>portlet_id = 1, title = ''News'',
         content_portlet.limit = 2, content_portlet.tags = ''''\<rparr>
        scenario_context = Inr [scenario_item 2 {}]"
proof -
  have h: "scenario_context ''request'' = Some (PyRequest \<lparr>user = ''alice''\<rparr>)"
    by (simp add: scenario_context_def)
  show ?thesis
    using h ContentPortlet_cap_before_filter
      [of scenario_context "\<lparr>user = ''alice''\<rparr>" "scenario_env {1, 2, 3} {2, 3} {1, 2, 3}"
          "[scenario_item 1 {}, scenario_item 2 {}, scenario_item 3 {}]"
          "\<lparr>portlet_id = 1, title = ''News'',
            content_portlet.limit = 2, content_portlet.tags = ''''\<rparr>"]
    by (simp add: filtered_catalog_def language_filter_def qualifies_def
        scenario_env_def scenario_item_def)
qed

subsection \<open>A limit of zero\<close>

text \<open>
  C3. For every catalog and every tag filter, a limit of 0 makes both ContentPortlet's
  selection and RandomPortlet's selection the empty sequence.
\<close>

theorem limit_zero_empty:
  "(content_portlet.limit self = 0 \<longrightarrow>
      ContentPortlet_objs env objects self context = Inr [])
   \<and> (random_portlet.limit self' = 0 \<longrightarrow>
      RandomPortlet_items rnd env objects self' = [])"
  by (simp add: ContentPortlet_objs_def ContentPortlet_temp_def RandomPortlet_items_def
      Let_def)

theorem limit_zero_empty_witness:
  "content_portlet.limit
     \<lparr>portlet_id = 1, title = ''News'',
      content_portlet.limit = 0, content_portlet.tags = ''x''\<rparr> = 0
   \<and> ContentPortlet_objs (scenario_env {1} {1} {1}) [scenario_item 1 {''x''}]
        \<lparr>portlet_id = 1, title = ''News'',
         content_portlet.limit = 0, content_portlet.tags = ''x''\<rparr>
        Map.empty = Inr []
   \<and> random_portlet.limit
        \<lparr>portlet_id = 2, title = ''Lucky'',
         random_portlet.limit = 0, random_portlet.tags = ''''\<rparr> = 0
   \<and> RandomPortlet_items (\<lambda>i. 0) (scenario_env {1} {1} {1}) [scenario_item 1 {''x''}]
        \<lparr>portlet_id = 2, title = ''Lucky'',
         random_portlet.limit = 0, random_portlet.tags = ''''\<rparr> = []"
  using limit_zero_empty
    [of "\<lparr>portlet_id = 1, title = ''News'',
          content_portlet.limit = 0, content_portlet.tags = ''x''\<rparr>"
        "scenario_env {1} {1} {1}" "[scenario_item 1 {''x''}]" Map.empty
        "\<lparr>portlet_id = 2, title = ''Lucky'',
          random_portlet.limit = 0, random_portlet.tags = ''''\<rparr>"
        "\<lambda>i. 0"]
  by simp

subsection \<open>ContentPortlet: the conjunctive tag match\<close>

text \<open>
  C4. For every non-empty tag filter and every catalog, every item of ContentPortlet's
  selection carries all the tags of the filter: the item's tag set is a superset of the
  parsed tags.
\<close>

theorem ContentPortlet_conjunctive_tags:
  assumes "content_portlet.tags self \<noteq> []"
    and "ContentPortlet_objs env objects self context = Inr objs"
    and "obj \<in> set objs"
  shows "set (parse_tag_input env (content_portlet.tags self)) \<subseteq> tag_set obj"
proof -
  from assms(2) have "set objs \<subseteq> set [] \<union> set (ContentPortlet_temp env objects self)"
    unfolding ContentPortlet_objs_def Let_def by (rule select_objs_subset)
  with assms(3) have "obj \<in> set (ContentPortlet_temp env objects self)"
    by auto
  then have "obj \<in> set (filtered_catalog env (content_portlet.tags self) objects)"
    unfolding ContentPortlet_temp_cap by (rule in_set_takeD)
  with assms(1) show ?thesis
    by (rule filtered_catalog_tags)
qed

theorem ContentPortlet_conjunctive_tags_witness:
  "''x,y'' \<noteq> []
   \<and> ContentPortlet_objs (scenario_env {1, 2, 3} {1, 2, 3} {1, 2, 3})
        [scenario_item 1 {''x''}, scenario_item 2 {''x'', ''y'', ''z''}, scenario_item 3 {''y''}]
        \<lparr>portlet_id = 1, title = ''News'',
         content_portlet.limit = 5, content_portlet.tags = ''x,y''\<rparr>
        scenario_context = Inr [scenario_item 2 {''x'', ''y'', ''z''}]
   \<and> scenario_item 2 {''x'', ''y'', ''z''} \<in> set [scenario_item 2 {''x'', ''y'', ''z''}]
   \<and> {''x'', ''y''} \<subseteq> tag_set (scenario_item 2 {''x'', ''y'', ''z''})"
proof -
  have run: "ContentPortlet_objs (scenario_env {1, 2, 3} {1, 2, 3} {1, 2, 3})
        [scenario_item 1 {''x''}, scenario_item 2 {''x'', ''y'', ''z''}, scenario_item 3 {''y''}]
        \<lparr>portlet_id = 1, title = ''News'',
         content_portlet.limit = 5, content_portlet.tags = ''x,y''\<rparr>
        scenario_context = Inr [scenario_item 2 {''x'', ''y'', ''z''}]"
    by (simp add: ContentPortlet_objs_def ContentPortlet_temp_def language_filter_def
        with_all_def scenario_env_def scenario_item_def scenario_context_def
        context_get_def get_content_object_def)
  have "set (parse_tag_input (scenario_env {1, 2, 3} {1, 2, 3} {1, 2, 3})
          (content_portlet.tags \<lparr>portlet_id = 1, title = ''News'',
             content_portlet.limit = 5, content_portlet.tags = ''x,y''\<rparr>))
        \<subseteq> tag_set (scenario_item 2 {''x'', ''y'', ''z''})"
    by (rule ContentPortlet_conjunctive_tags [OF _ run]) simp_all
  then have "{''x'', ''y''} \<subseteq> tag_set (scenario_item 2 {''x'', ''y'', ''z''})"
    by (simp add: scenario_env_def)
  with run show ?thesis by simp
qed

subsection \<open>ContentPortlet: permission and active state\<close>

text \<open>
  C5. ContentPortlet's selection excludes every item for which the permission check or
  the active-state check fails, also when the item passes the language and tag filters:
  every selected item is permitted and active for the request's principal. For the
  catalog of A (tag x, permitted) and B (tag x, not permitted), the tag filter x and
  limit 5, the selection is exactly A.
\<close>

theorem ContentPortlet_excludes_unpermitted_inactive:
  "(ContentPortlet_objs env objects self context = Inr objs \<longrightarrow>
      (\<forall>obj \<in> set objs. \<exists>r. context ''request'' = Some (PyRequest r)
          \<and> has_permission env obj (user r) ''view'' \<and> is_active env obj (user r)))
   \<and> ContentPortlet_objs (scenario_env {1, 2} {1} {1, 2})
        [scenario_item 1 {''x''}, scenario_item 2 {''x''}]
        \<lparr>portlet_id = 1, title = ''News'',
         content_portlet.limit = 5, content_portlet.tags = ''x''\<rparr>
        scenario_context = Inr [scenario_item 1 {''x''}]
   \<and> scenario_item 2 {''x''} \<in> set (filtered_catalog (scenario_env {1, 2} {1} {1, 2}) ''x''
        [scenario_item 1 {''x''}, scenario_item 2 {''x''}])"
proof (intro conjI impI ballI)
  fix obj
  assume run: "ContentPortlet_objs env objects self context = Inr objs"
    and obj: "obj \<in> set objs"
  show "\<exists>r. context ''request'' = Some (PyRequest r)
          \<and> has_permission env obj (user r) ''view'' \<and> is_active env obj (user r)"
  proof (cases "request_user (context_get context ''request'')")
    case (Inl e)
    from Inl run have "objs = []"
      unfolding ContentPortlet_objs_def Let_def by (rule select_objs_no_user)
    with obj show ?thesis by simp
  next
    case (Inr u)
    then obtain r where r: "context ''request'' = Some (PyRequest r)" "u = user r"
      using request_user_Inr by blast
    from run Inr have "objs = filter (qualifies env u) (ContentPortlet_temp env objects self)"
      by (simp add: ContentPortlet_objs_def select_objs_ok)
    with obj have "qualifies env u obj" by simp
    with r show ?thesis by (auto simp: qualifies_def)
  qed
next
  show "ContentPortlet_objs (scenario_env {1, 2} {1} {1, 2})
        [scenario_item 1 {''x''}, scenario_item 2 {''x''}]
        \<lparr>portlet_id = 1, title = ''News'',
         content_portlet.limit = 5, content_portlet.tags = ''x''\<rparr>
        scenario_context = Inr [scenario_item 1 {''x''}]"
    by (simp add: ContentPortlet_objs_def ContentPortlet_temp_def language_filter_def
        with_all_def scenario_env_def scenario_item_def scenario_context_def
        context_get_def get_content_object_def)
next
  show "scenario_item 2 {''x''} \<in> set (filtered_catalog (scenario_env {1, 2} {1} {1, 2}) ''x''
        [scenario_item 1 {''x''}, scenario_item 2 {''x''}])"
    by (simp add: filtered_catalog_def language_filter_def with_all_def
        scenario_env_def scenario_item_def)
qed

theorem ContentPortlet_excludes_unpermitted_inactive_witness:
  "ContentPortlet_objs (scenario_env {1, 2} {1, 2} {2})
        [scenario_item 1 {}, scenario_item 2 {}]
        \<lparr>portlet_id = 1, title = ''News'',
         content_portlet.limit = 5, content_portlet.tags = ''''\<rparr>
        scenario_context = Inr [scenario_item 2 {}]
   \<and> (\<exists>r. scenario_context ''request'' = Some (PyRequest r)
        \<and> has_permission (scenario_env {1, 2} {1, 2} {2}) (scenario_item 2 {}) (user r) ''view''
        \<and> is_active (scenario_env {1, 2} {1, 2} {2}) (scenario_item 2 {}) (user r))"
proof -
  have run: "ContentPortlet_objs (scenario_env {1, 2} {1, 2} {2})
        [scenario_item 1 {}, scenario_item 2 {}]
        \<lparr>portlet_id = 1, title = ''News'',
         content_portlet.limit = 5, content_portlet.tags = ''''\<rparr>
        scenario_context = Inr [scenario_item 2 {}]"
    by (simp add: ContentPortlet_objs_def ContentPortlet_temp_def language_filter_def
        scenario_env_def scenario_item_def scenario_context_def
        context_get_def get_content_object_def)
  with ContentPortlet_excludes_unpermitted_inactive
    [of "scenario_env {1, 2} {1, 2} {2}" "[scenario_item 1 {}, scenario_item 2 {}]"
        "\<lparr>portlet_id = 1, title = ''News'',
          content_portlet.limit = 5, content_portlet.tags = ''''\<rparr>"
        scenario_context "[scenario_item 2 {}]"]
  show ?thesis by simp
qed

subsection \<open>RandomPortlet: subset, size and permutation\<close>

text \<open>
  C6. For every catalog, tag filter, limit and random source, RandomPortlet's selection
  is drawn from the language- and tag-filtered catalog (whose items have the wildcard
  language "0" or the active language), each item at most as often as the filtered
  catalog holds it, and has at most \<open>limit\<close> items; when the limit is at least the size
  of the filtered catalog, the selection is a permutation of the filtered catalog.
\<close>

theorem RandomPortlet_subset_permutation:
  "mset (RandomPortlet_items rnd env objects self) \<subseteq>#
     mset (filtered_catalog env (random_portlet.tags self) objects)
   \<and> set (RandomPortlet_items rnd env objects self) \<subseteq>
     set (filtered_catalog env (random_portlet.tags self) objects)
   \<and> (\<forall>obj \<in> set (RandomPortlet_items rnd env objects self).
        obj \<in> set objects \<and> (language obj = ''0'' \<or> language obj = get_language env))
   \<and> length (RandomPortlet_items rnd env objects self) \<le> random_portlet.limit self
   \<and> (length (filtered_catalog env (random_portlet.tags self) objects)
         \<le> random_portlet.limit self \<longrightarrow>
       mset (RandomPortlet_items rnd env objects self) =
         mset (filtered_catalog env (random_portlet.tags self) objects))"
proof -
  let ?F = "filtered_catalog env (random_portlet.tags self) objects"
  let ?out = "RandomPortlet_items rnd env objects self"
  have "mset ?out \<subseteq># mset (shuffle rnd (RandomPortlet_filtered env objects self))"
    by (simp add: RandomPortlet_items_def Let_def mset_take_subseteq)
  also have "\<dots> = mset (RandomPortlet_filtered env objects self)"
    by (rule mset_shuffle)
  also have "\<dots> \<subseteq># mset ?F"
    by (rule RandomPortlet_filtered_subseteq)
  finally have sub: "mset ?out \<subseteq># mset ?F" .
  then have set_sub: "set ?out \<subseteq> set ?F"
    by (rule set_mset_mono [of "mset ?out" "mset ?F", simplified])
  have F_objects: "set ?F \<subseteq> set objects"
    by (auto simp: filtered_catalog_def with_all_def language_filter_def)
  have lang: "\<forall>obj \<in> set ?out.
        obj \<in> set objects \<and> (language obj = ''0'' \<or> language obj = get_language env)"
    using set_sub F_objects filtered_catalog_language [of _ env "random_portlet.tags self" objects]
    by blast
  have len: "length ?out \<le> random_portlet.limit self"
    by (simp add: RandomPortlet_items_def Let_def)
  have perm: "mset ?out = mset ?F" if "length ?F \<le> random_portlet.limit self"
  proof -
    from that have eq: "RandomPortlet_filtered env objects self = ?F"
      by (rule RandomPortlet_filtered_all)
    from that have "random_portlet.limit self \<ge> length (shuffle rnd ?F)"
      by (simp add: length_shuffle)
    then have "?out = shuffle rnd ?F"
      by (simp add: RandomPortlet_items_def Let_def eq)
    then show ?thesis by (simp add: mset_shuffle)
  qed
  from sub set_sub lang len perm show ?thesis by blast
qed

theorem RandomPortlet_subset_permutation_witness:
  "length (filtered_catalog (scenario_env {} {} {}) ''x''
      [scenario_item 1 {''x''}, scenario_item 2 {}, scenario_item 3 {''x''}]) \<le> 2
   \<and> RandomPortlet_items (\<lambda>i. 0) (scenario_env {} {} {})
        [scenario_item 1 {''x''}, scenario_item 2 {}, scenario_item 3 {''x''}]
        \<lparr>portlet_id = 2, title = ''Lucky'',
         random_portlet.limit = 2, random_portlet.tags = ''x''\<rparr>
      = [scenario_item 3 {''x''}, scenario_item 1 {''x''}]
   \<and> mset (RandomPortlet_items (\<lambda>i. 0) (scenario_env {} {} {})
        [scenario_item 1 {''x''}, scenario_item 2 {}, scenario_item 3 {''x''}]
        \<lparr>portlet_id = 2, title = ''Lucky'',
         random_portlet.limit = 2, random_portlet.tags = ''x''\<rparr>)
      = mset (filtered_catalog (scenario_env {} {} {}) ''x''
          [scenario_item 1 {''x''}, scenario_item 2 {}, scenario_item 3 {''x''}])"
proof -
  have F: "filtered_catalog (scenario_env {} {} {}) ''x''
      [scenario_item 1 {''x''}, scenario_item 2 {}, scenario_item 3 {''x''}]
      = [scenario_item 1 {''x''}, scenario_item 3 {''x''}]"
    by (simp add: filtered_catalog_def with_all_def language_filter_def
        scenario_env_def scenario_item_def)
  have out: "RandomPortlet_items (\<lambda>i. 0) (scenario_env {} {} {})
        [scenario_item 1 {''x''}, scenario_item 2 {}, scenario_item 3 {''x''}]
        \<lparr>portlet_id = 2, title = ''Lucky'',
         random_portlet.limit = 2, random_portlet.tags = ''x''\<rparr>
      = [scenario_item 3 {''x''}, scenario_item 1 {''x''}]"
    by (simp add: RandomPortlet_items_def RandomPortlet_filtered_def with_all_def
        language_filter_def shuffle_def scenario_env_def scenario_item_def)
  have len: "length (filtered_catalog (scenario_env {} {} {}) ''x''
      [scenario_item 1 {''x''}, scenario_item 2 {}, scenario_item 3 {''x''}]) \<le> 2"
    unfolding F by simp
  from len out RandomPortlet_subset_permutation
    [of "\<lambda>i. 0" "scenario_env {} {} {}"
        "[scenario_item 1 {''x''}, scenario_item 2 {}, scenario_item 3 {''x''}]"
        "\<lparr>portlet_id = 2, title = ''Lucky'',
          random_portlet.limit = 2, random_portlet.tags = ''x''\<rparr>"]
  show ?thesis by simp
qed

subsection \<open>RandomPortlet: the slice of the tag filter\<close>

text \<open>
  C2. With a non-empty tag filter, \<^verbatim>\<open>RandomPortlet.render\<close> slices the tag-filtered
  queryset to the limit before it shuffles. For the catalog of A and B, both tagged x,
  the tag filter x and limit 1, the filtered catalog holds A and B, yet the selection is A
  for every random source: B never appears. With an empty tag filter the same catalog is
  shuffled whole, and a random source selects B.
\<close>

theorem RandomPortlet_tag_slice_before_shuffle:
  "filtered_catalog (scenario_env {} {} {}) ''x''
     [scenario_item 1 {''x''}, scenario_item 2 {''x''}]
     = [scenario_item 1 {''x''}, scenario_item 2 {''x''}]
   \<and> RandomPortlet_items rnd (scenario_env {} {} {})
        [scenario_item 1 {''x''}, scenario_item 2 {''x''}]
        \<lparr>portlet_id = 2, title = ''Lucky'',
         random_portlet.limit = 1, random_portlet.tags = ''x''\<rparr>
      = [scenario_item 1 {''x''}]
   \<and> RandomPortlet_items (\<lambda>i. 0) (scenario_env {} {} {})
        [scenario_item 1 {''x''}, scenario_item 2 {''x''}]
        \<lparr>portlet_id = 2, title = ''Lucky'',
         random_portlet.limit = 1, random_portlet.tags = ''''\<rparr>
      = [scenario_item 2 {''x''}]"
  by (simp add: filtered_catalog_def RandomPortlet_items_def RandomPortlet_filtered_def
      with_all_def language_filter_def shuffle_def scenario_env_def scenario_item_def)

subsection \<open>TextPortlet: the text is passed through\<close>

text \<open>
  C7. \<^verbatim>\<open>TextPortlet.render\<close> puts the stored text into the template context as it
  is: for every stored string, the value under the key "text" is that string, unchanged;
  the template is the text portlet's.
\<close>

theorem TextPortlet_text_verbatim:
  "variables (template_vars (TextPortlet_render self context)) ''text'' = Some (TStr (text self))
   \<and> variables (template_vars (TextPortlet_render (self\<lparr>text := s\<rparr>) context)) ''text''
       = Some (TStr s)
   \<and> template_name (TextPortlet_render self context) = ''lfc/portlets/text_portlet.html''"
  by (simp add: TextPortlet_render_def render_to_string_def)

theorem TextPortlet_text_verbatim_witness:
  "variables (template_vars (TextPortlet_render
      \<lparr>portlet_id = 3, title = ''About'', text = ''''\<rparr> Map.empty)) ''text'' = Some (TStr '''')
   \<and> variables (template_vars (TextPortlet_render
      \<lparr>portlet_id = 3, title = ''About'', text = ''<p>Hello <b>world</b></p>''\<rparr>
      scenario_context)) ''text'' = Some (TStr ''<p>Hello <b>world</b></p>'')"
  using TextPortlet_text_verbatim
      [of "\<lparr>portlet_id = 3, title = ''About'', text = ''''\<rparr>" Map.empty]
    TextPortlet_text_verbatim
      [of "\<lparr>portlet_id = 3, title = ''About'', text = ''<p>Hello <b>world</b></p>''\<rparr>"
          scenario_context]
  by simp

subsection \<open>NavigationPortlet: what is forwarded\<close>

text \<open>
  C8, as the claim states it, fails: the render output is not invariant to everything
  but start_level, expand_level and title. \<^verbatim>\<open>NavigationPortlet.render\<close> reads the
  request from the context and hands it to the template in a \<^verbatim>\<open>RequestContext\<close>;
  the same portlet rendered with and without a request gives different outputs.
\<close>

theorem NavigationPortlet_request_counterexample:
  "NavigationPortlet_render
     \<lparr>portlet_id = 4, title = ''Menu'', start_level = 1, expand_level = 0\<rparr>
     scenario_context
   \<noteq> NavigationPortlet_render
     \<lparr>portlet_id = 4, title = ''Menu'', start_level = 1, expand_level = 0\<rparr>
     Map.empty"
  by (simp add: NavigationPortlet_render_def render_to_string_def scenario_context_def
      context_get_def)

text \<open>
  C8, amended. The render output of NavigationPortlet is invariant to all inputs except
  start_level, expand_level, title and the context's request: two portlet states and
  contexts that agree on these four give the same output.
\<close>

theorem NavigationPortlet_forwarding:
  assumes "start_level self = start_level self'"
    and "expand_level self = expand_level self'"
    and "title self = title self'"
    and "context_get context ''request'' = context_get context' ''request''"
  shows "NavigationPortlet_render self context = NavigationPortlet_render self' context'"
  using assms by (simp add: NavigationPortlet_render_def)

theorem NavigationPortlet_forwarding_witness:
  "NavigationPortlet_render
     \<lparr>portlet_id = 4, title = ''Menu'', start_level = 1, expand_level = 2\<rparr>
     scenario_context
   = NavigationPortlet_render
     \<lparr>portlet_id = 5, title = ''Menu'', start_level = 1, expand_level = 2\<rparr>
     (scenario_context(''slot'' \<mapsto> PyStr ''left''))"
  by (rule NavigationPortlet_forwarding)
     (simp_all add: context_get_def scenario_context_def)

subsection \<open>Errors of the operations\<close>

text \<open>
  C9, as the claim states it, fails: an operation of the portlets does raise. With no
  request in the context and a registered item among the capped candidates,
  \<^verbatim>\<open>ContentPortlet.render\<close> ends in \<^verbatim>\<open>AttributeError\<close>.
\<close>

theorem ContentPortlet_error_counterexample:
  "ContentPortlet_render (scenario_env {1} {1} {1}) [scenario_item 1 {}]
     \<lparr>portlet_id = 1, title = ''News'',
      content_portlet.limit = 5, content_portlet.tags = ''''\<rparr>
     Map.empty = Inl AttributeError"
  by (simp add: ContentPortlet_render_def ContentPortlet_objs_def ContentPortlet_temp_def
      language_filter_def scenario_env_def scenario_item_def context_get_def
      get_content_object_def)

text \<open>
  C9, amended. No operation of the portlets raises or surfaces an error to its caller,
  with one exception: \<^verbatim>\<open>ContentPortlet.render\<close> raises when \<^verbatim>\<open>request.user\<close>
  cannot be read from the context's request and some capped candidate has a registration
  entry. For every portlet of the four classes, every context, catalog and random source,
  \<^verbatim>\<open>render\<close> ends in an error exactly in that case. The renders of NavigationPortlet,
  RandomPortlet and TextPortlet return their markup for every input. ContentPortlet's
  render, when the context carries a request, hands the template exactly the capped
  candidates that are registered, permitted and active: an item with no registration
  entry, with a failed permission check or with a failed active check is left out
  silently; when no capped candidate has a registration entry it hands the template the
  empty sequence, request or not.
\<close>

theorem render_error_only_without_request:
  "(render rnd env objects p context = Inl e \<longleftrightarrow>
      (\<exists>self. p = ContentPortlet self
         \<and> request_user (context_get context ''request'') = Inl e
         \<and> (\<exists>obj \<in> set (ContentPortlet_temp env objects self). get_info env obj \<noteq> None)))
   \<and> render rnd env objects (NavigationPortlet nav) context =
        Inr (NavigationPortlet_render nav context)
   \<and> render rnd env objects (RandomPortlet rp) context =
        Inr (RandomPortlet_render rnd env objects rp context)
   \<and> render rnd env objects (TextPortlet tp) context =
        Inr (TextPortlet_render tp context)
   \<and> (context ''request'' = Some (PyRequest r) \<longrightarrow>
      render rnd env objects (ContentPortlet cp) context =
        Inr (render_to_string ''lfc/portlets/content_portlet.html''
              (Dict [''title'' \<mapsto> TStr (title cp),
                     ''objs'' \<mapsto> TObjs
                        (filter (\<lambda>obj. get_info env obj \<noteq> None
                                   \<and> has_permission env obj (user r) ''view''
                                   \<and> is_active env obj (user r))
                           (ContentPortlet_temp env objects cp))])))
   \<and> ((\<forall>obj \<in> set (ContentPortlet_temp env objects cp). get_info env obj = None) \<longrightarrow>
      render rnd env objects (ContentPortlet cp) context =
        Inr (render_to_string ''lfc/portlets/content_portlet.html''
              (Dict [''title'' \<mapsto> TStr (title cp), ''objs'' \<mapsto> TObjs []])))"
proof (intro conjI impI)
  show "render rnd env objects p context = Inl e \<longleftrightarrow>
      (\<exists>self. p = ContentPortlet self
         \<and> request_user (context_get context ''request'') = Inl e
         \<and> (\<exists>obj \<in> set (ContentPortlet_temp env objects self). get_info env obj \<noteq> None))"
  proof (cases p)
    case (ContentPortlet self)
    then show ?thesis
      by (simp add: ContentPortlet_render_error_iff)
  qed simp_all
next
  show "render rnd env objects (NavigationPortlet nav) context =
        Inr (NavigationPortlet_render nav context)"
    by simp
next
  show "render rnd env objects (RandomPortlet rp) context =
        Inr (RandomPortlet_render rnd env objects rp context)"
    by simp
next
  show "render rnd env objects (TextPortlet tp) context =
        Inr (TextPortlet_render tp context)"
    by simp
next
  assume "context ''request'' = Some (PyRequest r)"
  then show "render rnd env objects (ContentPortlet cp) context =
        Inr (render_to_string ''lfc/portlets/content_portlet.html''
              (Dict [''title'' \<mapsto> TStr (title cp),
                     ''objs'' \<mapsto> TObjs
                        (filter (\<lambda>obj. get_info env obj \<noteq> None
                                   \<and> has_permission env obj (user r) ''view''
                                   \<and> is_active env obj (user r))
                           (ContentPortlet_temp env objects cp))]))"
    by (simp add: ContentPortlet_render_with_request)
next
  assume "\<forall>obj \<in> set (ContentPortlet_temp env objects cp). get_info env obj = None"
  then show "render rnd env objects (ContentPortlet cp) context =
        Inr (render_to_string ''lfc/portlets/content_portlet.html''
              (Dict [''title'' \<mapsto> TStr (title cp), ''objs'' \<mapsto> TObjs []]))"
    by (simp add: ContentPortlet_render_unregistered)
qed

theorem render_error_only_without_request_witness:
  "scenario_context ''request'' = Some (PyRequest \<lparr>user = ''alice''\<rparr>)
   \<and> render (\<lambda>i. 0) (scenario_env {2, 3, 4} {1, 2, 4} {1, 2, 3})
        [scenario_item 1 {}, scenario_item 2 {}, scenario_item 3 {}, scenario_item 4 {}]
        (ContentPortlet \<lparr>portlet_id = 1, title = ''News'',
           content_portlet.limit = 5, content_portlet.tags = ''''\<rparr>)
        scenario_context
      = Inr (render_to_string ''lfc/portlets/content_portlet.html''
              (Dict [''title'' \<mapsto> TStr ''News'', ''objs'' \<mapsto> TObjs [scenario_item 2 {}]]))
   \<and> get_info (scenario_env {} {1} {1}) (scenario_item 1 {}) = None
   \<and> render (\<lambda>i. 0) (scenario_env {} {1} {1}) [scenario_item 1 {}]
        (ContentPortlet \<lparr>portlet_id = 1, title = ''News'',
           content_portlet.limit = 5, content_portlet.tags = ''''\<rparr>)
        Map.empty
      = Inr (render_to_string ''lfc/portlets/content_portlet.html''
              (Dict [''title'' \<mapsto> TStr ''News'', ''objs'' \<mapsto> TObjs []]))
   \<and> render (\<lambda>i. 0) (scenario_env {1} {1} {1}) [scenario_item 1 {}]
        (ContentPortlet \<lparr>portlet_id = 1, title = ''News'',
           content_portlet.limit = 5, content_portlet.tags = ''''\<rparr>)
        Map.empty
      = Inl AttributeError
   \<and> render (\<lambda>i. 0) (scenario_env {1} {1} {1}) [scenario_item 1 {}]
        (NavigationPortlet \<lparr>portlet_id = 4, title = ''Menu'', start_level = 1, expand_level = 0\<rparr>)
        Map.empty
      \<noteq> Inl AttributeError
   \<and> render (\<lambda>i. 0) (scenario_env {1} {1} {1}) [scenario_item 1 {}]
        (RandomPortlet \<lparr>portlet_id = 2, title = ''Lucky'',
           random_portlet.limit = 1, random_portlet.tags = ''''\<rparr>)
        Map.empty
      \<noteq> Inl AttributeError
   \<and> render (\<lambda>i. 0) (scenario_env {1} {1} {1}) [scenario_item 1 {}]
        (TextPortlet \<lparr>portlet_id = 3, title = ''About'', text = ''<p>Hello</p>''\<rparr>)
        Map.empty
      \<noteq> Inl AttributeError"
proof -
  have h: "scenario_context ''request'' = Some (PyRequest \<lparr>user = ''alice''\<rparr>)"
    by (simp add: scenario_context_def)
  have temp1: "ContentPortlet_temp (scenario_env {2, 3, 4} {1, 2, 4} {1, 2, 3})
        [scenario_item 1 {}, scenario_item 2 {}, scenario_item 3 {}, scenario_item 4 {}]
        \<lparr>portlet_id = 1, title = ''News'',
         content_portlet.limit = 5, content_portlet.tags = ''''\<rparr>
      = [scenario_item 1 {}, scenario_item 2 {}, scenario_item 3 {}, scenario_item 4 {}]"
    by (simp add: ContentPortlet_temp_def language_filter_def scenario_item_def)
  have temp2: "ContentPortlet_temp env' [scenario_item 1 {}]
        \<lparr>portlet_id = 1, title = ''News'',
         content_portlet.limit = 5, content_portlet.tags = ''''\<rparr>
      = [scenario_item 1 {}]" for env'
    by (simp add: ContentPortlet_temp_def language_filter_def scenario_item_def)
  have none: "get_info (scenario_env {} {1} {1}) (scenario_item 1 {}) = None"
    by (simp add: scenario_env_def)
  have some: "get_info (scenario_env {1} {1} {1}) (scenario_item 1 {}) \<noteq> None"
    by (simp add: scenario_env_def scenario_item_def)
  have no_user: "request_user (context_get Map.empty ''request'') = Inl AttributeError"
    by (simp add: context_get_def)
  have first: "render (\<lambda>i. 0) (scenario_env {2, 3, 4} {1, 2, 4} {1, 2, 3})
        [scenario_item 1 {}, scenario_item 2 {}, scenario_item 3 {}, scenario_item 4 {}]
        (ContentPortlet \<lparr>portlet_id = 1, title = ''News'',
           content_portlet.limit = 5, content_portlet.tags = ''''\<rparr>)
        scenario_context
      = Inr (render_to_string ''lfc/portlets/content_portlet.html''
              (Dict [''title'' \<mapsto> TStr ''News'', ''objs'' \<mapsto> TObjs [scenario_item 2 {}]]))"
    using h render_error_only_without_request
      [of "\<lambda>i. 0"
          "scenario_env {2, 3, 4} {1, 2, 4} {1, 2, 3}"
          "[scenario_item 1 {}, scenario_item 2 {}, scenario_item 3 {}, scenario_item 4 {}]"
          _
          scenario_context
          _
          _
          _
          _
          "\<lparr>user = ''alice''\<rparr>"
          "\<lparr>portlet_id = 1, title = ''News'',
            content_portlet.limit = 5, content_portlet.tags = ''''\<rparr>"]
    unfolding temp1 by (simp add: scenario_env_def scenario_item_def)
  have second: "render (\<lambda>i. 0) (scenario_env {} {1} {1}) [scenario_item 1 {}]
        (ContentPortlet \<lparr>portlet_id = 1, title = ''News'',
           content_portlet.limit = 5, content_portlet.tags = ''''\<rparr>)
        Map.empty
      = Inr (render_to_string ''lfc/portlets/content_portlet.html''
              (Dict [''title'' \<mapsto> TStr ''News'', ''objs'' \<mapsto> TObjs []]))"
    using none render_error_only_without_request
      [of "\<lambda>i. 0"
          "scenario_env {} {1} {1}"
          "[scenario_item 1 {}]"
          _
          Map.empty
          _
          _
          _
          _
          _
          "\<lparr>portlet_id = 1, title = ''News'',
            content_portlet.limit = 5, content_portlet.tags = ''''\<rparr>"]
    unfolding temp2 by simp
  have third: "render (\<lambda>i. 0) (scenario_env {1} {1} {1}) [scenario_item 1 {}]
        (ContentPortlet \<lparr>portlet_id = 1, title = ''News'',
           content_portlet.limit = 5, content_portlet.tags = ''''\<rparr>)
        Map.empty
      = Inl AttributeError"
  proof -
    have reg: "\<exists>obj \<in> set (ContentPortlet_temp (scenario_env {1} {1} {1}) [scenario_item 1 {}]
          \<lparr>portlet_id = 1, title = ''News'',
           content_portlet.limit = 5, content_portlet.tags = ''''\<rparr>).
        get_info (scenario_env {1} {1} {1}) obj \<noteq> None"
      unfolding temp2 using some by simp
    have "\<exists>self. ContentPortlet \<lparr>portlet_id = 1, title = ''News'',
            content_portlet.limit = 5, content_portlet.tags = ''''\<rparr> = ContentPortlet self
        \<and> request_user (context_get Map.empty ''request'') = Inl AttributeError
        \<and> (\<exists>obj \<in> set (ContentPortlet_temp (scenario_env {1} {1} {1}) [scenario_item 1 {}] self).
              get_info (scenario_env {1} {1} {1}) obj \<noteq> None)"
      by (intro exI [of _ "\<lparr>portlet_id = 1, title = ''News'',
            content_portlet.limit = 5, content_portlet.tags = ''''\<rparr>"] conjI refl no_user reg)
    then show ?thesis
      by (rule iffD2 [OF render_error_only_without_request
          [of "\<lambda>i. 0" "scenario_env {1} {1} {1}" "[scenario_item 1 {}]"
              "ContentPortlet \<lparr>portlet_id = 1, title = ''News'',
                 content_portlet.limit = 5, content_portlet.tags = ''''\<rparr>"
              Map.empty AttributeError, THEN conjunct1]])
  qed
  have others: "render (\<lambda>i. 0) (scenario_env {1} {1} {1}) [scenario_item 1 {}] p Map.empty
      \<noteq> Inl AttributeError" if "\<forall>self. p \<noteq> ContentPortlet self" for p
    using that render_error_only_without_request
      [of "\<lambda>i. 0"
          "scenario_env {1} {1} {1}"
          "[scenario_item 1 {}]"
          p
          Map.empty
          AttributeError
          _
          _
          _
          _
          _]
    by simp
  from h none first second third
    others [of "NavigationPortlet \<lparr>portlet_id = 4, title = ''Menu'', start_level = 1, expand_level = 0\<rparr>"]
    others [of "RandomPortlet \<lparr>portlet_id = 2, title = ''Lucky'',
           random_portlet.limit = 1, random_portlet.tags = ''''\<rparr>"]
    others [of "TextPortlet \<lparr>portlet_id = 3, title = ''About'', text = ''<p>Hello</p>''\<rparr>"]
  show ?thesis by simp
qed

subsection \<open>ContentPortlet: the request is dereferenced\<close>

text \<open>
  C10. \<^verbatim>\<open>ContentPortlet.render\<close> takes the request from the context with
  \<^verbatim>\<open>context.get("request")\<close> and reads \<^verbatim>\<open>request.user\<close> in the loop. There is an
  input with no request in the context and a candidate that survives the cap for which
  the operation fails; this happens whenever the context has no request and a surviving
  candidate has a registration entry. With no surviving candidate the operation succeeds
  with an empty sequence, request or not.
\<close>

theorem ContentPortlet_request_dereference:
  "(\<exists>env0 objects0 self0 context0.
      context0 ''request'' = None
      \<and> ContentPortlet_temp env0 objects0 self0 \<noteq> []
      \<and> ContentPortlet_render env0 objects0 self0 context0 = Inl AttributeError)
   \<and> (context ''request'' = None
        \<and> (\<exists>obj \<in> set (ContentPortlet_temp env objects self). get_info env obj \<noteq> None) \<longrightarrow>
      ContentPortlet_render env objects self context = Inl AttributeError)
   \<and> (ContentPortlet_temp env objects self = [] \<longrightarrow>
      ContentPortlet_render env objects self context =
        Inr (render_to_string ''lfc/portlets/content_portlet.html''
              (Dict [''title'' \<mapsto> TStr (title self), ''objs'' \<mapsto> TObjs []])))"
proof (intro conjI impI)
  show "\<exists>env0 objects0 self0 context0.
      context0 ''request'' = None
      \<and> ContentPortlet_temp env0 objects0 self0 \<noteq> []
      \<and> ContentPortlet_render env0 objects0 self0 context0 = Inl AttributeError"
    by (rule exI [of _ "scenario_env {1} {1} {1}"], rule exI [of _ "[scenario_item 1 {}]"],
        rule exI [of _ "\<lparr>portlet_id = 1, title = ''News'',
           content_portlet.limit = 5, content_portlet.tags = ''''\<rparr>"],
        rule exI [of _ Map.empty])
       (simp add: ContentPortlet_render_def ContentPortlet_objs_def ContentPortlet_temp_def
        language_filter_def scenario_env_def scenario_item_def context_get_def
        get_content_object_def)
next
  assume a: "context ''request'' = None
        \<and> (\<exists>obj \<in> set (ContentPortlet_temp env objects self). get_info env obj \<noteq> None)"
  then have "request_user (context_get context ''request'') = Inl AttributeError"
    by (simp add: request_user_absent)
  moreover from a have "\<exists>obj \<in> set (ContentPortlet_temp env objects self). get_info env obj \<noteq> None"
    by simp
  ultimately have "ContentPortlet_objs env objects self context = Inl AttributeError"
    unfolding ContentPortlet_objs_def Let_def by (rule select_objs_fail)
  then show "ContentPortlet_render env objects self context = Inl AttributeError"
    by (simp add: ContentPortlet_render_def)
next
  assume "ContentPortlet_temp env objects self = []"
  then show "ContentPortlet_render env objects self context =
        Inr (render_to_string ''lfc/portlets/content_portlet.html''
              (Dict [''title'' \<mapsto> TStr (title self), ''objs'' \<mapsto> TObjs []]))"
    by (simp add: ContentPortlet_render_def ContentPortlet_objs_def)
qed

theorem ContentPortlet_request_dereference_witness:
  "(Map.empty :: py_context) ''request'' = None
   \<and> get_info (scenario_env {2} {} {}) (scenario_item 2 {}) \<noteq> None
   \<and> ContentPortlet_render (scenario_env {2} {} {})
        [scenario_item 1 {}, scenario_item 2 {}]
        \<lparr>portlet_id = 1, title = ''News'',
         content_portlet.limit = 2, content_portlet.tags = ''''\<rparr>
        Map.empty = Inl AttributeError
   \<and> ContentPortlet_temp (scenario_env {2} {} {})
        [scenario_item 1 {}, scenario_item 2 {}]
        \<lparr>portlet_id = 1, title = ''News'',
         content_portlet.limit = 2, content_portlet.tags = ''y''\<rparr> = []
   \<and> ContentPortlet_render (scenario_env {2} {} {})
        [scenario_item 1 {}, scenario_item 2 {}]
        \<lparr>portlet_id = 1, title = ''News'',
         content_portlet.limit = 2, content_portlet.tags = ''y''\<rparr>
        Map.empty
      = Inr (render_to_string ''lfc/portlets/content_portlet.html''
              (Dict [''title'' \<mapsto> TStr ''News'', ''objs'' \<mapsto> TObjs []]))"
proof -
  have temp1: "ContentPortlet_temp (scenario_env {2} {} {})
        [scenario_item 1 {}, scenario_item 2 {}]
        \<lparr>portlet_id = 1, title = ''News'',
         content_portlet.limit = 2, content_portlet.tags = ''''\<rparr>
      = [scenario_item 1 {}, scenario_item 2 {}]"
    by (simp add: ContentPortlet_temp_def language_filter_def scenario_item_def)
  have reg: "get_info (scenario_env {2} {} {}) (scenario_item 2 {}) \<noteq> None"
    by (simp add: scenario_env_def scenario_item_def)
  have temp2: "ContentPortlet_temp (scenario_env {2} {} {})
        [scenario_item 1 {}, scenario_item 2 {}]
        \<lparr>portlet_id = 1, title = ''News'',
         content_portlet.limit = 2, content_portlet.tags = ''y''\<rparr> = []"
    by (simp add: ContentPortlet_temp_def language_filter_def with_all_def
        scenario_env_def scenario_item_def)
  have fails: "ContentPortlet_render (scenario_env {2} {} {})
        [scenario_item 1 {}, scenario_item 2 {}]
        \<lparr>portlet_id = 1, title = ''News'',
         content_portlet.limit = 2, content_portlet.tags = ''''\<rparr>
        Map.empty = Inl AttributeError"
    using reg ContentPortlet_request_dereference
      [of Map.empty "scenario_env {2} {} {}" "[scenario_item 1 {}, scenario_item 2 {}]"
          "\<lparr>portlet_id = 1, title = ''News'',
            content_portlet.limit = 2, content_portlet.tags = ''''\<rparr>"]
    unfolding temp1 by simp
  have succeeds: "ContentPortlet_render (scenario_env {2} {} {})
        [scenario_item 1 {}, scenario_item 2 {}]
        \<lparr>portlet_id = 1, title = ''News'',
         content_portlet.limit = 2, content_portlet.tags = ''y''\<rparr>
        Map.empty
      = Inr (render_to_string ''lfc/portlets/content_portlet.html''
              (Dict [''title'' \<mapsto> TStr ''News'', ''objs'' \<mapsto> TObjs []]))"
    using temp2 ContentPortlet_request_dereference
      [of Map.empty "scenario_env {2} {} {}" "[scenario_item 1 {}, scenario_item 2 {}]"
          "\<lparr>portlet_id = 1, title = ''News'',
            content_portlet.limit = 2, content_portlet.tags = ''y''\<rparr>"]
    by simp
  from reg temp2 fails succeeds show ?thesis by simp
qed

end
